theory Spec2Isabelle
  imports Main "HOL-Library.Word"
begin

section \<open>The image operations of go-dockerclient (image.go)\<close>

text \<open>
  Every exported method of \<open>image.go\<close> builds one request and hands it to one of the
  two transport methods of \<open>Client\<close>, \<open>do\<close> and \<open>stream\<close>, which live in another
  file of the package. The embedding takes both as fields of the client, threads the
  transport's own state through every call, and records each invocation in a log, so
  that what was sent, and how often, can be stated.
\<close>

subsection \<open>Data\<close>

type_synonym bytes = "8 word list"

text \<open>
  A Go \<open>error\<close>. The three package-level values of lines 32-36 are constructors of
  their own; every other error value (of the transport, the decoder, the operating
  system) is \<open>OtherError\<close> with its message.
\<close>

datatype error = ErrNoSuchImage | ErrMissingRepo | ErrMissingOutputStream | OtherError string

text \<open>
  An \<open>io.Writer\<close> or \<open>io.Reader\<close> supplied by the caller is an opaque handle. The
  only readers the file makes itself are \<open>bytes.Buffer\<close>s, which carry their
  contents. A nil stream is \<open>None\<close>.
\<close>

datatype writer = Writer nat

datatype reader = Reader nat | Buffer bytes

record APIImages =
  ID :: string
  RepoTags :: "string list"
  Created :: "64 word"
  Size :: "64 word"
  VirtualSize :: "64 word"
  ParentId :: string
  Repository :: string
  Tag :: string

text \<open>The type \<open>Image\<close> is declared in another file of the package; it is only decoded here.\<close>

typedecl Image

record PushImageOptions =
  Push_Name :: string
  Push_Registry :: string
  Push_OutputStream :: "writer option"

record AuthConfiguration =
  Username :: string
  Password :: string
  Email :: string

record PullImageOptions =
  Pull_Repository :: string
  Pull_Registry :: string
  Pull_OutputStream :: "writer option"

record ImportImageOptions =
  Import_Repository :: string
  Import_Source :: string
  Import_InputStream :: "reader option"
  Import_OutputStream :: "writer option"

record BuildImageOptions =
  Build_Name :: string
  Build_Remote :: string
  Build_SuppressOutput :: bool
  Build_OutputStream :: "writer option"

record TagImageOptions =
  Tag_Repo :: string
  Tag_Force :: bool

text \<open>\<open>queryString\<close> takes an \<open>interface{}\<close>: any of the option structs, by pointer.\<close>

datatype opts =
    PushOpts PushImageOptions
  | PullOpts PullImageOptions
  | ImportOpts ImportImageOptions
  | BuildOpts BuildImageOptions
  | TagOpts TagImageOptions

subsection \<open>What the file calls and does not define\<close>

text \<open>
  \<open>queryString\<close> is a function of the package defined in another file; \<open>url.Parse\<close>,
  \<open>os.Open\<close>, \<open>ioutil.ReadAll\<close>, \<open>json.Unmarshal\<close> and \<open>json.Encoder.Encode\<close> are
  the standard library. They are parameters. \<open>ioutil.ReadAll\<close> returns the bytes it
  read together with an error, as in Go. Of a parsed URL only \<open>Scheme\<close> is read.
\<close>

record URL =
  Scheme :: string

datatype File = Fd nat

record env =
  queryString :: "opts \<Rightarrow> string"
  url_Parse :: "string \<Rightarrow> error + URL"
  os_Open :: "string \<Rightarrow> error + File"
  ioutil_ReadAll :: "File \<Rightarrow> bytes \<times> error option"
  json_Unmarshal_images :: "bytes \<Rightarrow> error + APIImages list"
  json_Unmarshal_image :: "bytes \<Rightarrow> error + Image"
  json_Encode_auth :: "AuthConfiguration \<Rightarrow> error + bytes"

text \<open>
  The transport. \<open>do method path data\<close> returns the response body, the status code and
  an error; \<open>stream method path in out\<close> returns an error only. In this file \<open>data\<close>
  is always nil. \<open>'s\<close> is the state of the connection and of the daemon behind it.
\<close>

type_synonym response = "bytes \<times> int \<times> error option"

record 's Client =
  do :: "string \<Rightarrow> string \<Rightarrow> bytes option \<Rightarrow> 's \<Rightarrow> response \<times> 's"
  stream :: "string \<Rightarrow> string \<Rightarrow> reader option \<Rightarrow> writer option \<Rightarrow> 's \<Rightarrow> error option \<times> 's"

datatype call =
    DoCall string string "bytes option"
  | StreamCall string string "reader option" "writer option"

record 's world =
  conn :: 's
  calls :: "call list"

definition resp_body :: "response \<Rightarrow> bytes" where
  "resp_body r = fst r"

definition resp_status :: "response \<Rightarrow> int" where
  "resp_status r = fst (snd r)"

definition resp_err :: "response \<Rightarrow> error option" where
  "resp_err r = snd (snd r)"

text \<open>One invocation of \<open>c.do\<close>, logged.\<close>

definition call_do ::
  "'s Client \<Rightarrow> string \<Rightarrow> string \<Rightarrow> bytes option \<Rightarrow> 's world \<Rightarrow> response \<times> 's world" where
  "call_do c method path data w =
     (let (r, s') = do c method path data (conn w)
      in (r, \<lparr>conn = s', calls = calls w @ [DoCall method path data]\<rparr>))"

text \<open>One invocation of \<open>c.stream\<close>, logged.\<close>

definition call_stream ::
  "'s Client \<Rightarrow> string \<Rightarrow> string \<Rightarrow> reader option \<Rightarrow> writer option \<Rightarrow> 's world
     \<Rightarrow> error option \<times> 's world" where
  "call_stream c method path inp out w =
     (let (err, s') = stream c method path inp out (conn w)
      in (err, \<lparr>conn = s', calls = calls w @ [StreamCall method path inp out]\<rparr>))"

text \<open>\<open>http.StatusNotFound\<close>\<close>

definition StatusNotFound :: int where
  "StatusNotFound = 404"

subsection \<open>The operations\<close>

text \<open>Lines 41-58.\<close>

definition ListImages ::
  "env \<Rightarrow> 's Client \<Rightarrow> bool \<Rightarrow> 's world \<Rightarrow> (error + APIImages list) \<times> 's world" where
  "ListImages e c all w =
     (let path = ''/images/json?all='' @ (if all then ''1'' else ''0'');
          (r, w1) = call_do c ''GET'' path None w
      in case resp_err r of
           Some err \<Rightarrow> (Inl err, w1)
         | None \<Rightarrow>
             (case json_Unmarshal_images e (resp_body r) of
                Inl err \<Rightarrow> (Inl err, w1)
              | Inr images \<Rightarrow> (Inr images, w1)))"

text \<open>Lines 63-69. The status is tested before, and whatever, the error.\<close>

definition RemoveImage ::
  "'s Client \<Rightarrow> string \<Rightarrow> 's world \<Rightarrow> error option \<times> 's world" where
  "RemoveImage c name w =
     (let (r, w1) = call_do c ''DELETE'' (''/images/'' @ name) None w
      in if resp_status r = StatusNotFound then (Some ErrNoSuchImage, w1)
         else (resp_err r, w1))"

text \<open>Lines 74-88.\<close>

definition InspectImage ::
  "env \<Rightarrow> 's Client \<Rightarrow> string \<Rightarrow> 's world \<Rightarrow> (error + Image) \<times> 's world" where
  "InspectImage e c name w =
     (let (r, w1) = call_do c ''GET'' (''/images/'' @ name @ ''/json'') None w
      in if resp_status r = StatusNotFound then (Inl ErrNoSuchImage, w1)
         else case resp_err r of
                Some err \<Rightarrow> (Inl err, w1)
              | None \<Rightarrow>
                  (case json_Unmarshal_image e (resp_body r) of
                     Inl err \<Rightarrow> (Inl err, w1)
                   | Inr img \<Rightarrow> (Inr img, w1)))"

text \<open>
  Lines 124-125: a fresh buffer, into which the encoder writes the JSON of \<open>auth\<close>.
  The encoder's error is dropped; on an error nothing has been written.
\<close>

definition auth_buffer :: "env \<Rightarrow> AuthConfiguration \<Rightarrow> reader" where
  "auth_buffer e auth =
     (case json_Encode_auth e auth of Inl err \<Rightarrow> Buffer [] | Inr b \<Rightarrow> Buffer b)"

text \<open>Lines 117-127. \<open>opts\<close> is passed by value: the caller's struct is not changed.\<close>

definition PushImage ::
  "env \<Rightarrow> 's Client \<Rightarrow> PushImageOptions \<Rightarrow> AuthConfiguration \<Rightarrow> 's world
     \<Rightarrow> error option \<times> 's world" where
  "PushImage e c opts auth w =
     (if Push_Name opts = '''' then (Some ErrNoSuchImage, w)
      else
        let name = Push_Name opts;
            opts1 = opts\<lparr>Push_Name := ''''\<rparr>;
            path = ''/images/'' @ name @ ''/push?'' @ queryString e (PushOpts opts1);
            buf = auth_buffer e auth
        in call_stream c ''POST'' path (Some buf) (Push_OutputStream opts1) w)"

text \<open>Lines 149-152.\<close>

definition createImage ::
  "'s Client \<Rightarrow> string \<Rightarrow> reader option \<Rightarrow> writer option \<Rightarrow> 's world
     \<Rightarrow> error option \<times> 's world" where
  "createImage c qs inp out w =
     (let path = ''/images/create?'' @ qs in call_stream c ''POST'' path inp out w)"

text \<open>Lines 142-147.\<close>

definition PullImage ::
  "env \<Rightarrow> 's Client \<Rightarrow> PullImageOptions \<Rightarrow> 's world \<Rightarrow> error option \<times> 's world" where
  "PullImage e c opts w =
     (if Pull_Repository opts = '''' then (Some ErrNoSuchImage, w)
      else createImage c (queryString e (PullOpts opts)) None (Pull_OutputStream opts) w)"

text \<open>Lines 215-221.\<close>

definition isUrl :: "env \<Rightarrow> string \<Rightarrow> bool" where
  "isUrl e u =
     (case url_Parse e u of
        Inl err \<Rightarrow> False
      | Inr p \<Rightarrow> Scheme p = ''http'' \<or> Scheme p = ''https'')"

text \<open>
  Lines 169-186. The error of \<open>ioutil.ReadAll\<close> (line 181) is assigned and never read:
  the bytes it returned go into the buffer whatever it is.
\<close>

definition ImportImage ::
  "env \<Rightarrow> 's Client \<Rightarrow> ImportImageOptions \<Rightarrow> 's world \<Rightarrow> error option \<times> 's world" where
  "ImportImage e c opts w =
     (if Import_Repository opts = '''' then (Some ErrNoSuchImage, w)
      else
        let opts1 = (if Import_Source opts \<noteq> ''-''
                     then opts\<lparr>Import_InputStream := None\<rparr> else opts)
        in if Import_Source opts1 \<noteq> ''-'' \<and> \<not> isUrl e (Import_Source opts1) then
             (case os_Open e (Import_Source opts1) of
                Inl err \<Rightarrow> (Some err, w)
              | Inr f \<Rightarrow>
                  let (b, err) = ioutil_ReadAll e f;
                      opts2 = opts1\<lparr>Import_InputStream := Some (Buffer b),
                                    Import_Source := ''-''\<rparr>
                  in createImage c (queryString e (ImportOpts opts2))
                       (Import_InputStream opts2) (Import_OutputStream opts2) w)
           else createImage c (queryString e (ImportOpts opts1))
                  (Import_InputStream opts1) (Import_OutputStream opts1) w)"

text \<open>Lines 198-213. \<open>fmt.Sprintf("/build?%s", qs)\<close> is the concatenation.\<close>

definition BuildImage ::
  "env \<Rightarrow> 's Client \<Rightarrow> BuildImageOptions \<Rightarrow> 's world \<Rightarrow> error option \<times> 's world" where
  "BuildImage e c opts w =
     (if Build_Remote opts = '''' then (Some ErrMissingRepo, w)
      else
        let opts1 = (if Build_Name opts = ''''
                     then opts\<lparr>Build_Name := Build_Remote opts\<rparr> else opts)
        in if Build_OutputStream opts1 = None then (Some ErrMissingOutputStream, w)
           else call_stream c ''POST'' (''/build?'' @ queryString e (BuildOpts opts1))
                  None (Build_OutputStream opts1) w)"

text \<open>Lines 223-225.\<close>

definition GetImageTarball ::
  "'s Client \<Rightarrow> string \<Rightarrow> writer option \<Rightarrow> 's world \<Rightarrow> error option \<times> 's world" where
  "GetImageTarball c imageName out w =
     call_stream c ''GET'' (''/images/'' @ imageName @ ''/get'') None out w"

text \<open>Lines 227-229.\<close>

definition PostImageTarball ::
  "'s Client \<Rightarrow> reader option \<Rightarrow> 's world \<Rightarrow> error option \<times> 's world" where
  "PostImageTarball c r w = call_stream c ''POST'' ''/images/load'' r None w"

text \<open>Lines 236-243.\<close>

definition SetImageTag ::
  "env \<Rightarrow> 's Client \<Rightarrow> string \<Rightarrow> string \<Rightarrow> bool \<Rightarrow> 's world \<Rightarrow> error option \<times> 's world" where
  "SetImageTag e c imageName tag force w =
     (let opts = \<lparr>Tag_Repo = tag, Tag_Force = force\<rparr>;
          path = ''/images/'' @ imageName @ ''/tag?'' @ queryString e (TagOpts opts)
      in call_stream c ''POST'' path None None w)"

subsection \<open>Specification vocabulary\<close>

text \<open>What \<open>c.do\<close> answers to a request with nil data sent in world \<open>w\<close>.\<close>

definition do_response :: "'s Client \<Rightarrow> string \<Rightarrow> string \<Rightarrow> 's world \<Rightarrow> response" where
  "do_response c method path w = fst (do c method path None (conn w))"

text \<open>What \<open>c.stream\<close> answers to a request sent in world \<open>w\<close>.\<close>

definition stream_error ::
  "'s Client \<Rightarrow> string \<Rightarrow> string \<Rightarrow> reader option \<Rightarrow> writer option \<Rightarrow> 's world
     \<Rightarrow> error option" where
  "stream_error c method path inp out w = fst (stream c method path inp out (conn w))"

text \<open>The invocations of the transport that an operation started in \<open>w\<close> has added to the log.\<close>

definition sent :: "'s world \<Rightarrow> 'a \<times> 's world \<Rightarrow> call list" where
  "sent w res = drop (length (calls w)) (calls (snd res))"

text \<open>The log only grows.\<close>

definition extends_log :: "'s world \<Rightarrow> 'a \<times> 's world \<Rightarrow> bool" where
  "extends_log w res = (take (length (calls w)) (calls (snd res)) = calls w)"

text \<open>\<open>ImportImage\<close> takes its source for a local path.\<close>

definition local_path :: "env \<Rightarrow> string \<Rightarrow> bool" where
  "local_path e src = (src \<noteq> ''-'' \<and> \<not> isUrl e src)"

subsection \<open>A concrete environment\<close>

text \<open>
  Stand-ins for the parameters, to run the operations on concrete inputs. The query
  string lists the non-empty string fields and the true flags under their \<open>qs\<close> tags;
  a URL's scheme is what precedes \<open>://\<close>; one file exists; the JSON decoder knows the
  empty array.
\<close>

definition qs_item :: "string \<Rightarrow> string \<Rightarrow> string" where
  "qs_item k v = (if v = '''' then '''' else k @ ''='' @ v @ ''&'')"

fun demo_queryString :: "opts \<Rightarrow> string" where
  "demo_queryString (PushOpts p) =
     qs_item ''name'' (Push_Name p) @ qs_item ''registry'' (Push_Registry p)"
| "demo_queryString (PullOpts p) =
     qs_item ''fromImage'' (Pull_Repository p) @ qs_item ''registry'' (Pull_Registry p)"
| "demo_queryString (ImportOpts p) =
     qs_item ''repo'' (Import_Repository p) @ qs_item ''fromSrc'' (Import_Source p)"
| "demo_queryString (BuildOpts p) =
     qs_item ''t'' (Build_Name p) @ qs_item ''remote'' (Build_Remote p)
       @ (if Build_SuppressOutput p then ''q=1&'' else '''')"
| "demo_queryString (TagOpts p) =
     qs_item ''repo'' (Tag_Repo p) @ (if Tag_Force p then ''force=1&'' else '''')"

definition demo_url_Parse :: "string \<Rightarrow> error + URL" where
  "demo_url_Parse u =
     (if take 7 u = ''http://'' then Inr \<lparr>Scheme = ''http''\<rparr>
      else if take 8 u = ''https://'' then Inr \<lparr>Scheme = ''https''\<rparr>
      else Inr \<lparr>Scheme = ''''\<rparr>)"

definition demo_os_Open :: "string \<Rightarrow> error + File" where
  "demo_os_Open p =
     (if p = ''/tmp/image.tar'' then Inr (Fd 3)
      else Inl (OtherError (''open '' @ p @ '': no such file or directory'')))"

definition demo_env :: env where
  "demo_env =
     \<lparr>queryString = demo_queryString,
      url_Parse = demo_url_Parse,
      os_Open = demo_os_Open,
      ioutil_ReadAll = (\<lambda>f. ([1, 2, 3], None)),
      json_Unmarshal_images =
        (\<lambda>b. if b = [91, 93] then Inr [] else Inl (OtherError ''unexpected end of JSON input'')),
      json_Unmarshal_image = (\<lambda>b. Inl (OtherError ''unexpected end of JSON input'')),
      json_Encode_auth = (\<lambda>a. Inr [123, 125, 10])\<rparr>"

text \<open>A daemon that answers every request with 200 and \<open>[]\<close>, counting the requests.\<close>

definition ok_client :: "nat Client" where
  "ok_client =
     \<lparr>do = (\<lambda>m p d s. (([91, 93], 200, None), Suc s)),
      stream = (\<lambda>m p i out s. (None, Suc s))\<rparr>"

text \<open>A daemon that answers every request with 404.\<close>

definition notfound_error :: error where
  "notfound_error = OtherError ''API error (404): not found''"

definition notfound_client :: "nat Client" where
  "notfound_client =
     \<lparr>do = (\<lambda>m p d s. (([], 404, Some notfound_error), Suc s)),
      stream = (\<lambda>m p i out s. (Some notfound_error, Suc s))\<rparr>"

text \<open>A daemon that answers every request with 500.\<close>

definition server_error :: error where
  "server_error = OtherError ''API error (500): server error''"

definition failing_client :: "nat Client" where
  "failing_client =
     \<lparr>do = (\<lambda>m p d s. (([], 500, Some server_error), Suc s)),
      stream = (\<lambda>m p i out s. (Some server_error, Suc s))\<rparr>"

definition w0 :: "nat world" where
  "w0 = \<lparr>conn = 0, calls = []\<rparr>"

subsection \<open>Concrete inputs\<close>

definition push_busybox :: PushImageOptions where
  "push_busybox = \<lparr>Push_Name = ''busybox'', Push_Registry = ''reg.example.com'',
                   Push_OutputStream = Some (Writer 1)\<rparr>"

definition push_unnamed :: PushImageOptions where
  "push_unnamed = \<lparr>Push_Name = '''', Push_Registry = ''reg.example.com'',
                   Push_OutputStream = Some (Writer 1)\<rparr>"

definition no_auth :: AuthConfiguration where
  "no_auth = \<lparr>Username = '''', Password = '''', Email = ''''\<rparr>"

definition pull_busybox :: PullImageOptions where
  "pull_busybox = \<lparr>Pull_Repository = ''busybox'', Pull_Registry = '''',
                   Pull_OutputStream = Some (Writer 2)\<rparr>"

definition import_url :: ImportImageOptions where
  "import_url = \<lparr>Import_Repository = ''app'', Import_Source = ''http://example.com/image.tar'',
                 Import_InputStream = Some (Reader 7), Import_OutputStream = Some (Writer 1)\<rparr>"

definition import_file :: ImportImageOptions where
  "import_file = \<lparr>Import_Repository = ''app'', Import_Source = ''/tmp/image.tar'',
                  Import_InputStream = Some (Reader 7), Import_OutputStream = Some (Writer 1)\<rparr>"

definition import_missing :: ImportImageOptions where
  "import_missing = \<lparr>Import_Repository = ''app'', Import_Source = ''/tmp/none.tar'',
                     Import_InputStream = None, Import_OutputStream = Some (Writer 1)\<rparr>"

definition build_repo :: BuildImageOptions where
  "build_repo = \<lparr>Build_Name = '''', Build_Remote = ''github.com/user/repo'',
                 Build_SuppressOutput = False, Build_OutputStream = Some (Writer 1)\<rparr>"

section \<open>Properties\<close>

lemmas input_defs = push_busybox_def push_unnamed_def no_auth_def pull_busybox_def import_url_def
  import_file_def import_missing_def build_repo_def

lemmas demo_defs = demo_env_def ok_client_def notfound_client_def failing_client_def w0_def
  demo_url_Parse_def demo_os_Open_def qs_item_def isUrl_def auth_buffer_def notfound_error_def
  server_error_def

subsection \<open>The log\<close>

lemma sent_none [simp]: "sent w (r, w) = []"
  by (simp add: sent_def)

lemma extends_none [simp]: "extends_log w (r, w)"
  by (simp add: extends_log_def)

lemma sent_call_do [simp]: "sent w (call_do c m p d w) = [DoCall m p d]"
  by (simp add: sent_def call_do_def split: prod.splits)

lemma extends_call_do [simp]: "extends_log w (call_do c m p d w)"
  by (simp add: extends_log_def call_do_def split: prod.splits)

lemma sent_call_stream [simp]: "sent w (call_stream c m p i out w) = [StreamCall m p i out]"
  by (simp add: sent_def call_stream_def split: prod.splits)

lemma extends_call_stream [simp]: "extends_log w (call_stream c m p i out w)"
  by (simp add: extends_log_def call_stream_def split: prod.splits)

lemma fst_call_stream [simp]: "fst (call_stream c m p i out w) = stream_error c m p i out w"
  by (simp add: call_stream_def stream_error_def split: prod.splits)

lemma fst_call_do [simp]: "fst (call_do c m p None w) = do_response c m p w"
  by (simp add: call_do_def do_response_def split: prod.splits)

lemma sent_snd [simp]: "sent w (x, snd r) = sent w r"
  by (simp add: sent_def)

lemma extends_snd [simp]: "extends_log w (x, snd r) = extends_log w r"
  by (simp add: extends_log_def)

subsection \<open>Each operation, branch by branch\<close>

lemma ListImages_unfold:
  "ListImages e c all w =
     (case resp_err (do_response c ''GET'' (''/images/json?all='' @ (if all then ''1'' else ''0'')) w) of
        Some err \<Rightarrow> Inl err
      | None \<Rightarrow> json_Unmarshal_images e
          (resp_body (do_response c ''GET'' (''/images/json?all='' @ (if all then ''1'' else ''0'')) w)),
      snd (call_do c ''GET'' (''/images/json?all='' @ (if all then ''1'' else ''0'')) None w))"
  by (simp add: ListImages_def Let_def case_prod_beta split: option.splits sum.splits)

lemma RemoveImage_unfold:
  "RemoveImage c name w =
     (if resp_status (do_response c ''DELETE'' (''/images/'' @ name) w) = 404
      then Some ErrNoSuchImage
      else resp_err (do_response c ''DELETE'' (''/images/'' @ name) w),
      snd (call_do c ''DELETE'' (''/images/'' @ name) None w))"
  by (simp add: RemoveImage_def Let_def case_prod_beta StatusNotFound_def)

lemma InspectImage_unfold:
  "InspectImage e c name w =
     (if resp_status (do_response c ''GET'' (''/images/'' @ name @ ''/json'') w) = 404
      then Inl ErrNoSuchImage
      else case resp_err (do_response c ''GET'' (''/images/'' @ name @ ''/json'') w) of
             Some err \<Rightarrow> Inl err
           | None \<Rightarrow> json_Unmarshal_image e
               (resp_body (do_response c ''GET'' (''/images/'' @ name @ ''/json'') w)),
      snd (call_do c ''GET'' (''/images/'' @ name @ ''/json'') None w))"
  by (simp add: InspectImage_def Let_def case_prod_beta StatusNotFound_def
        split: option.splits sum.splits)

lemma PushImage_rejects:
  "Push_Name opts = '''' \<Longrightarrow> PushImage e c opts auth w = (Some ErrNoSuchImage, w)"
  by (simp add: PushImage_def)

lemma PushImage_sends:
  "Push_Name opts \<noteq> '''' \<Longrightarrow>
   PushImage e c opts auth w =
     call_stream c ''POST''
       (''/images/'' @ Push_Name opts @ ''/push?'' @
          queryString e (PushOpts (opts\<lparr>Push_Name := ''''\<rparr>)))
       (Some (auth_buffer e auth)) (Push_OutputStream opts) w"
  by (simp add: PushImage_def Let_def)

lemma PullImage_rejects:
  "Pull_Repository opts = '''' \<Longrightarrow> PullImage e c opts w = (Some ErrNoSuchImage, w)"
  by (simp add: PullImage_def)

lemma PullImage_sends:
  "Pull_Repository opts \<noteq> '''' \<Longrightarrow>
   PullImage e c opts w =
     call_stream c ''POST'' (''/images/create?'' @ queryString e (PullOpts opts))
       None (Pull_OutputStream opts) w"
  by (simp add: PullImage_def createImage_def)

lemma ImportImage_rejects:
  "Import_Repository opts = '''' \<Longrightarrow> ImportImage e c opts w = (Some ErrNoSuchImage, w)"
  by (simp add: ImportImage_def)

lemma ImportImage_stdin:
  "Import_Repository opts \<noteq> '''' \<Longrightarrow> Import_Source opts = ''-'' \<Longrightarrow>
   ImportImage e c opts w =
     call_stream c ''POST'' (''/images/create?'' @ queryString e (ImportOpts opts))
       (Import_InputStream opts) (Import_OutputStream opts) w"
  by (simp add: ImportImage_def createImage_def)

lemma ImportImage_remote:
  "Import_Repository opts \<noteq> '''' \<Longrightarrow> Import_Source opts \<noteq> ''-'' \<Longrightarrow>
   isUrl e (Import_Source opts) \<Longrightarrow>
   ImportImage e c opts w =
     call_stream c ''POST''
       (''/images/create?'' @ queryString e (ImportOpts (opts\<lparr>Import_InputStream := None\<rparr>)))
       None (Import_OutputStream opts) w"
  by (simp add: ImportImage_def createImage_def)

lemma ImportImage_open_fails:
  "Import_Repository opts \<noteq> '''' \<Longrightarrow> local_path e (Import_Source opts) \<Longrightarrow>
   os_Open e (Import_Source opts) = Inl err \<Longrightarrow>
   ImportImage e c opts w = (Some err, w)"
  by (simp add: ImportImage_def local_path_def)

lemma ImportImage_opened:
  "Import_Repository opts \<noteq> '''' \<Longrightarrow> local_path e (Import_Source opts) \<Longrightarrow>
   os_Open e (Import_Source opts) = Inr f \<Longrightarrow>
   ImportImage e c opts w =
     call_stream c ''POST''
       (''/images/create?'' @ queryString e
          (ImportOpts (opts\<lparr>Import_InputStream := Some (Buffer (fst (ioutil_ReadAll e f))),
                            Import_Source := ''-''\<rparr>)))
       (Some (Buffer (fst (ioutil_ReadAll e f)))) (Import_OutputStream opts) w"
  by (simp add: ImportImage_def local_path_def createImage_def Let_def split: prod.splits)

lemma BuildImage_no_remote:
  "Build_Remote opts = '''' \<Longrightarrow> BuildImage e c opts w = (Some ErrMissingRepo, w)"
  by (simp add: BuildImage_def)

lemma BuildImage_no_output:
  "Build_Remote opts \<noteq> '''' \<Longrightarrow> Build_OutputStream opts = None \<Longrightarrow>
   BuildImage e c opts w = (Some ErrMissingOutputStream, w)"
  by (simp add: BuildImage_def)

lemma BuildImage_sends:
  "Build_Remote opts \<noteq> '''' \<Longrightarrow> Build_OutputStream opts \<noteq> None \<Longrightarrow>
   BuildImage e c opts w =
     call_stream c ''POST''
       (''/build?'' @ queryString e
          (BuildOpts (if Build_Name opts = '''' then opts\<lparr>Build_Name := Build_Remote opts\<rparr>
                      else opts)))
       None (Build_OutputStream opts) w"
  by (cases "Build_Name opts") (auto simp: BuildImage_def Let_def)

lemma ImportImage_cases:
  "ImportImage e c opts w = (Some ErrNoSuchImage, w) \<and> Import_Repository opts = [] \<or>
   (\<exists>err. ImportImage e c opts w = (Some err, w) \<and> Import_Repository opts \<noteq> [] \<and>
      local_path e (Import_Source opts) \<and> os_Open e (Import_Source opts) = Inl err) \<or>
   (\<exists>p i. ImportImage e c opts w = call_stream c ''POST'' p i (Import_OutputStream opts) w \<and>
      Import_Repository opts \<noteq> [] \<and>
      (local_path e (Import_Source opts) \<longrightarrow> \<not> isl (os_Open e (Import_Source opts))))"
proof (cases "Import_Repository opts = []")
  case True
  then show ?thesis by (simp add: ImportImage_rejects)
next
  case repo: False
  show ?thesis
  proof (cases "Import_Source opts = ''-''")
    case True
    with repo show ?thesis by (auto simp: ImportImage_stdin local_path_def)
  next
    case src: False
    show ?thesis
    proof (cases "isUrl e (Import_Source opts)")
      case True
      with repo src show ?thesis by (auto simp: ImportImage_remote local_path_def)
    next
      case False
      with src have lp: "local_path e (Import_Source opts)" by (simp add: local_path_def)
      show ?thesis
      proof (cases "os_Open e (Import_Source opts)")
        case (Inl err)
        with repo lp show ?thesis by (simp add: ImportImage_open_fails)
      next
        case (Inr f)
        with repo lp show ?thesis by (auto simp: ImportImage_opened)
      qed
    qed
  qed
qed

subsection \<open>What a dispatched stream request returns, and how many are dispatched\<close>

lemma PushImage_result:
  "sent w (PushImage e c opts auth w) = [StreamCall m p i out] \<Longrightarrow>
   fst (PushImage e c opts auth w) = stream_error c m p i out w"
  by (cases "Push_Name opts = []") (auto simp: PushImage_rejects PushImage_sends)

lemma PullImage_result:
  "sent w (PullImage e c opts w) = [StreamCall m p i out] \<Longrightarrow>
   fst (PullImage e c opts w) = stream_error c m p i out w"
  by (cases "Pull_Repository opts = []") (auto simp: PullImage_rejects PullImage_sends)

lemma ImportImage_result:
  "sent w (ImportImage e c opts w) = [StreamCall m p i out] \<Longrightarrow>
   fst (ImportImage e c opts w) = stream_error c m p i out w"
  using ImportImage_cases [of e c opts w] by auto

lemma BuildImage_result:
  "sent w (BuildImage e c opts w) = [StreamCall m p i out] \<Longrightarrow>
   fst (BuildImage e c opts w) = stream_error c m p i out w"
  by (cases "Build_Remote opts = []"; cases "Build_OutputStream opts = None")
     (auto simp: BuildImage_no_remote BuildImage_no_output BuildImage_sends)









subsection \<open>Status 404 and the errors of the transport\<close>

text \<open>
  C1, as stated, at a concrete input: the transport answers the request of \<open>ListImages\<close>
  with status 404 and an error of its own, and \<open>ListImages\<close> returns that error, which is
  not \<open>ErrNoSuchImage\<close>. (Line 48 discards the status.)
\<close>

theorem ListImages_404_counterexample:
  "resp_status (do_response notfound_client ''GET'' ''/images/json?all=1'' w0) = 404 \<and>
   fst (ListImages demo_env notfound_client True w0) = Inl notfound_error \<and>
   notfound_error \<noteq> ErrNoSuchImage"
  by (simp add: ListImages_unfold do_response_def notfound_client_def w0_def notfound_error_def
        resp_status_def resp_err_def)

text \<open>
  C1, amended. \<open>RemoveImage\<close> and \<open>InspectImage\<close> return \<open>ErrNoSuchImage\<close> when the
  transport reports status 404, and otherwise return the transport's error unchanged.
  \<open>ListImages\<close> returns the transport's error unchanged whatever the status. The
  operations built on \<open>stream\<close> (push, pull, import, build, tarball get and put, tag) see
  no status: whenever one of them has dispatched its request, what it returns is what
  the transport returned for that request.
\<close>

theorem not_found_mapping_by_operation:
  "(resp_status (do_response c ''DELETE'' (''/images/'' @ name) w) = 404 \<longrightarrow>
      fst (RemoveImage c name w) = Some ErrNoSuchImage) \<and>
   (resp_status (do_response c ''DELETE'' (''/images/'' @ name) w) \<noteq> 404 \<longrightarrow>
      fst (RemoveImage c name w) = resp_err (do_response c ''DELETE'' (''/images/'' @ name) w)) \<and>
   (resp_status (do_response c ''GET'' (''/images/'' @ name @ ''/json'') w) = 404 \<longrightarrow>
      fst (InspectImage e c name w) = Inl ErrNoSuchImage) \<and>
   (resp_status (do_response c ''GET'' (''/images/'' @ name @ ''/json'') w) \<noteq> 404 \<and>
    resp_err (do_response c ''GET'' (''/images/'' @ name @ ''/json'') w) = Some err \<longrightarrow>
      fst (InspectImage e c name w) = Inl err) \<and>
   (resp_err (do_response c ''GET'' (''/images/json?all='' @ (if all then ''1'' else ''0'')) w)
      = Some err \<longrightarrow>
      fst (ListImages e c all w) = Inl err) \<and>
   (sent w (PushImage e c pusho auth w) = [StreamCall m p i out] \<longrightarrow>
      fst (PushImage e c pusho auth w) = stream_error c m p i out w) \<and>
   (sent w (PullImage e c pullo w) = [StreamCall m p i out] \<longrightarrow>
      fst (PullImage e c pullo w) = stream_error c m p i out w) \<and>
   (sent w (ImportImage e c impo w) = [StreamCall m p i out] \<longrightarrow>
      fst (ImportImage e c impo w) = stream_error c m p i out w) \<and>
   (sent w (BuildImage e c buildo w) = [StreamCall m p i out] \<longrightarrow>
      fst (BuildImage e c buildo w) = stream_error c m p i out w) \<and>
   fst (GetImageTarball c name wr w)
     = stream_error c ''GET'' (''/images/'' @ name @ ''/get'') None wr w \<and>
   fst (PostImageTarball c rd w) = stream_error c ''POST'' ''/images/load'' rd None w \<and>
   fst (SetImageTag e c name tag force w)
     = stream_error c ''POST''
         (''/images/'' @ name @ ''/tag?'' @
            queryString e (TagOpts \<lparr>Tag_Repo = tag, Tag_Force = force\<rparr>))
         None None w"
proof -
  have "fst (GetImageTarball c name wr w)
          = stream_error c ''GET'' (''/images/'' @ name @ ''/get'') None wr w"
    by (simp add: GetImageTarball_def)
  moreover have "fst (PostImageTarball c rd w) = stream_error c ''POST'' ''/images/load'' rd None w"
    by (simp add: PostImageTarball_def)
  moreover have "fst (SetImageTag e c name tag force w)
     = stream_error c ''POST''
         (''/images/'' @ name @ ''/tag?'' @
            queryString e (TagOpts \<lparr>Tag_Repo = tag, Tag_Force = force\<rparr>))
         None None w"
    by (simp add: SetImageTag_def Let_def)
  moreover have
    "resp_err (do_response c ''GET'' (''/images/json?all='' @ (if all then ''1'' else ''0'')) w)
       = Some err \<longrightarrow> fst (ListImages e c all w) = Inl err"
    by (simp add: ListImages_unfold)
  moreover have
    "resp_status (do_response c ''GET'' (''/images/'' @ name @ ''/json'') w) \<noteq> 404 \<and>
     resp_err (do_response c ''GET'' (''/images/'' @ name @ ''/json'') w) = Some err \<longrightarrow>
       fst (InspectImage e c name w) = Inl err"
    by (simp add: InspectImage_unfold)
  moreover have
    "resp_status (do_response c ''GET'' (''/images/'' @ name @ ''/json'') w) = 404 \<longrightarrow>
       fst (InspectImage e c name w) = Inl ErrNoSuchImage"
    by (simp add: InspectImage_unfold)
  moreover have
    "resp_status (do_response c ''DELETE'' (''/images/'' @ name) w) = 404 \<longrightarrow>
       fst (RemoveImage c name w) = Some ErrNoSuchImage"
    by (simp add: RemoveImage_unfold)
  moreover have
    "resp_status (do_response c ''DELETE'' (''/images/'' @ name) w) \<noteq> 404 \<longrightarrow>
       fst (RemoveImage c name w) = resp_err (do_response c ''DELETE'' (''/images/'' @ name) w)"
    by (simp add: RemoveImage_unfold)
  ultimately show ?thesis
    using PushImage_result [of w e c pusho auth m p i out]
      PullImage_result [of w e c pullo m p i out]
      ImportImage_result [of w e c impo m p i out]
      BuildImage_result [of w e c buildo m p i out]
    by blast
qed

text \<open>
  The theorem at the daemons that answer 404, 500 and 200: remove and inspect map the 404
  and hand the 500 on; list and the stream operations hand the transport's error on.
\<close>

theorem not_found_mapping_by_operation_witness:
  "fst (RemoveImage notfound_client ''busybox'' w0) = Some ErrNoSuchImage \<and>
   fst (RemoveImage failing_client ''busybox'' w0) = Some server_error \<and>
   fst (RemoveImage ok_client ''busybox'' w0) = None \<and>
   fst (InspectImage demo_env notfound_client ''busybox'' w0) = Inl ErrNoSuchImage \<and>
   fst (InspectImage demo_env failing_client ''busybox'' w0) = Inl server_error \<and>
   fst (ListImages demo_env notfound_client True w0) = Inl notfound_error \<and>
   fst (PushImage demo_env notfound_client push_busybox no_auth w0) = Some notfound_error \<and>
   fst (PullImage demo_env notfound_client pull_busybox w0) = Some notfound_error \<and>
   fst (ImportImage demo_env notfound_client import_url w0) = Some notfound_error \<and>
   fst (BuildImage demo_env notfound_client build_repo w0) = Some notfound_error"
proof -
  have push: "sent w0 (PushImage demo_env notfound_client push_busybox no_auth w0)
             = [StreamCall ''POST'' ''/images/busybox/push?registry=reg.example.com&''
                  (Some (Buffer [123, 125, 10])) (Some (Writer 1))]"
    by (simp add: PushImage_sends input_defs demo_defs)
  have pull: "sent w0 (PullImage demo_env notfound_client pull_busybox w0)
             = [StreamCall ''POST'' ''/images/create?fromImage=busybox&'' None (Some (Writer 2))]"
    by (simp add: PullImage_sends input_defs demo_defs)
  have imp: "sent w0 (ImportImage demo_env notfound_client import_url w0)
             = [StreamCall ''POST''
                  ''/images/create?repo=app&fromSrc=http://example.com/image.tar&''
                  None (Some (Writer 1))]"
    by (simp add: ImportImage_remote input_defs demo_defs)
  have build: "sent w0 (BuildImage demo_env notfound_client build_repo w0)
             = [StreamCall ''POST''
                  ''/build?t=github.com/user/repo&remote=github.com/user/repo&''
                  None (Some (Writer 1))]"
    by (simp add: BuildImage_sends input_defs demo_defs)
  show ?thesis
    using
      not_found_mapping_by_operation
        [where c = notfound_client and name = "''busybox''" and w = w0 and e = demo_env
           and err = notfound_error and all = True and pusho = push_busybox and auth = no_auth
           and m = "''POST''" and p = "''/images/busybox/push?registry=reg.example.com&''"
           and i = "Some (Buffer [123, 125, 10])" and out = "Some (Writer 1)"]
      not_found_mapping_by_operation
        [where c = notfound_client and w = w0 and e = demo_env and pullo = pull_busybox
           and m = "''POST''" and p = "''/images/create?fromImage=busybox&''"
           and i = None and out = "Some (Writer 2)"]
      not_found_mapping_by_operation
        [where c = notfound_client and w = w0 and e = demo_env and impo = import_url
           and m = "''POST''"
           and p = "''/images/create?repo=app&fromSrc=http://example.com/image.tar&''"
           and i = None and out = "Some (Writer 1)"]
      not_found_mapping_by_operation
        [where c = notfound_client and w = w0 and e = demo_env and buildo = build_repo
           and m = "''POST''"
           and p = "''/build?t=github.com/user/repo&remote=github.com/user/repo&''"
           and i = None and out = "Some (Writer 1)"]
      not_found_mapping_by_operation
        [where c = failing_client and name = "''busybox''" and w = w0 and e = demo_env
           and err = server_error]
      not_found_mapping_by_operation
        [where c = ok_client and name = "''busybox''" and w = w0]
      push pull imp build
    by (simp add: do_response_def stream_error_def notfound_client_def failing_client_def
          ok_client_def w0_def resp_status_def resp_err_def server_error_def)
qed

subsection \<open>Errors signalled before any request\<close>




subsection \<open>Import from a local file\<close>



subsection \<open>Build: validation before any request\<close>

text \<open>
  C4. \<open>BuildImage\<close> with an empty \<open>Remote\<close> returns \<open>ErrMissingRepo\<close>, and with a
  non-empty \<open>Remote\<close> and a nil \<open>OutputStream\<close> returns \<open>ErrMissingOutputStream\<close>; in
  both cases the world comes back as it was: the log has no new entry and the state of
  the connection is untouched, so the transport was not invoked.
\<close>

theorem BuildImage_fails_before_any_request:
  "(Build_Remote opts = '''' \<longrightarrow> BuildImage e c opts w = (Some ErrMissingRepo, w)) \<and>
   (Build_Remote opts \<noteq> '''' \<and> Build_OutputStream opts = None \<longrightarrow>
      BuildImage e c opts w = (Some ErrMissingOutputStream, w))"
  by (simp add: BuildImage_def)

theorem BuildImage_fails_before_any_request_witness:
  "BuildImage demo_env ok_client
     \<lparr>Build_Name = ''app'', Build_Remote = '''', Build_SuppressOutput = False,
      Build_OutputStream = Some (Writer 1)\<rparr> w0 = (Some ErrMissingRepo, w0) \<and>
   BuildImage demo_env ok_client
     \<lparr>Build_Name = ''app'', Build_Remote = ''github.com/user/repo'',
      Build_SuppressOutput = False, Build_OutputStream = None\<rparr> w0
     = (Some ErrMissingOutputStream, w0)"
  using
    BuildImage_fails_before_any_request
      [of "\<lparr>Build_Name = ''app'', Build_Remote = '''', Build_SuppressOutput = False,
            Build_OutputStream = Some (Writer 1)\<rparr>" demo_env ok_client w0]
    BuildImage_fails_before_any_request
      [of "\<lparr>Build_Name = ''app'', Build_Remote = ''github.com/user/repo'',
            Build_SuppressOutput = False, Build_OutputStream = None\<rparr>" demo_env ok_client w0]
  by simp

subsection \<open>The streams handed to the transport\<close>

text \<open>
  C5, as stated, at a concrete input: \<open>ImportImage\<close> is called with an http URL as
  \<open>Source\<close> and the caller's reader 7 as \<open>InputStream\<close>; this is not the local-path
  case, and the transport receives a nil input stream, not reader 7 (lines 173-175).
\<close>

theorem ImportImage_url_drops_input_counterexample:
  "Import_InputStream import_url = Some (Reader 7) \<and>
   isUrl demo_env (Import_Source import_url) \<and>
   sent w0 (ImportImage demo_env ok_client import_url w0)
     = [StreamCall ''POST'' ''/images/create?repo=app&fromSrc=http://example.com/image.tar&''
          None (Some (Writer 1))]"
  by (simp add: ImportImage_remote import_url_def demo_defs)

text \<open>
  C5, amended. Every streaming operation that dispatches its request passes the
  caller's output stream to the transport as given, and so the caller's input stream
  in \<open>PostImageTarball\<close> and in \<open>ImportImage\<close> with \<open>Source\<close> equal to \<open>-\<close>.
  \<open>ImportImage\<close> with any other \<open>Source\<close> does not pass the caller's input stream: the
  input is nil for an http/https URL, and a buffer with the bytes read from the file for
  a local path. Pull, build and tarball get pass a nil input; push passes the buffer
  with the encoded credentials.
\<close>

theorem streams_passed_to_transport:
  "(Push_Name pusho \<noteq> '''' \<longrightarrow>
      (\<exists>p. sent w (PushImage e c pusho auth w)
         = [StreamCall ''POST'' p (Some (auth_buffer e auth)) (Push_OutputStream pusho)])) \<and>
   (Pull_Repository pullo \<noteq> '''' \<longrightarrow>
      (\<exists>p. sent w (PullImage e c pullo w)
         = [StreamCall ''POST'' p None (Pull_OutputStream pullo)])) \<and>
   (Import_Repository impo \<noteq> '''' \<and> Import_Source impo = ''-'' \<longrightarrow>
      (\<exists>p. sent w (ImportImage e c impo w)
         = [StreamCall ''POST'' p (Import_InputStream impo) (Import_OutputStream impo)])) \<and>
   (Import_Repository impo \<noteq> '''' \<and> Import_Source impo \<noteq> ''-'' \<and>
    isUrl e (Import_Source impo) \<longrightarrow>
      (\<exists>p. sent w (ImportImage e c impo w)
         = [StreamCall ''POST'' p None (Import_OutputStream impo)])) \<and>
   (Import_Repository impo \<noteq> '''' \<and> Import_Source impo \<noteq> ''-'' \<and>
    \<not> isUrl e (Import_Source impo) \<and> os_Open e (Import_Source impo) = Inr f \<longrightarrow>
      (\<exists>p. sent w (ImportImage e c impo w)
         = [StreamCall ''POST'' p (Some (Buffer (fst (ioutil_ReadAll e f))))
              (Import_OutputStream impo)])) \<and>
   (Build_Remote buildo \<noteq> '''' \<and> Build_OutputStream buildo \<noteq> None \<longrightarrow>
      (\<exists>p. sent w (BuildImage e c buildo w)
         = [StreamCall ''POST'' p None (Build_OutputStream buildo)])) \<and>
   (\<exists>p. sent w (GetImageTarball c name wr w) = [StreamCall ''GET'' p None wr]) \<and>
   sent w (PostImageTarball c rd w) = [StreamCall ''POST'' ''/images/load'' rd None]"
  by (simp add: PushImage_sends PullImage_sends ImportImage_stdin ImportImage_remote
        ImportImage_opened BuildImage_sends GetImageTarball_def PostImageTarball_def
        local_path_def)

text \<open>Import from stdin, from a URL and from a file, a push, a pull and a build.\<close>

theorem streams_passed_to_transport_witness:
  "(\<exists>p. sent w0 (ImportImage demo_env ok_client (import_url\<lparr>Import_Source := ''-''\<rparr>) w0)
      = [StreamCall ''POST'' p (Some (Reader 7)) (Some (Writer 1))]) \<and>
   (\<exists>p. sent w0 (ImportImage demo_env ok_client import_url w0)
      = [StreamCall ''POST'' p None (Some (Writer 1))]) \<and>
   (\<exists>p. sent w0 (ImportImage demo_env ok_client import_file w0)
      = [StreamCall ''POST'' p (Some (Buffer [1, 2, 3])) (Some (Writer 1))]) \<and>
   (\<exists>p. sent w0 (PushImage demo_env ok_client push_busybox no_auth w0)
      = [StreamCall ''POST'' p (Some (Buffer [123, 125, 10])) (Some (Writer 1))]) \<and>
   (\<exists>p. sent w0 (PullImage demo_env ok_client pull_busybox w0)
      = [StreamCall ''POST'' p None (Some (Writer 2))]) \<and>
   (\<exists>p. sent w0 (BuildImage demo_env ok_client build_repo w0)
      = [StreamCall ''POST'' p None (Some (Writer 1))])"
  using
    streams_passed_to_transport
      [where impo = "import_url\<lparr>Import_Source := ''-''\<rparr>" and e = demo_env and c = ok_client
         and w = w0]
    streams_passed_to_transport
      [where impo = import_url and e = demo_env and c = ok_client and w = w0]
    streams_passed_to_transport
      [where impo = import_file and e = demo_env and c = ok_client and w = w0 and f = "Fd 3"]
    streams_passed_to_transport
      [where pusho = push_busybox and auth = no_auth and e = demo_env and c = ok_client and w = w0
         and pullo = pull_busybox and buildo = build_repo]
  by (simp add: input_defs demo_defs)

subsection \<open>Listing\<close>

text \<open>
  C6. \<open>ListImages all\<close> sends one request, \<open>GET /images/json?all=1\<close> when \<open>all\<close> is
  true and \<open>GET /images/json?all=0\<close> when it is false, with no data. When the transport
  returns no error, the result is what the JSON decoder makes of the response body: the
  decoded list as it is, or the decoder's error. When the transport returns an error,
  the result is that error. So the call fails exactly when the transport or the decoder
  fails.
\<close>

theorem ListImages_request_and_result:
  "sent w (ListImages e c all w)
     = [DoCall ''GET'' (if all then ''/images/json?all=1'' else ''/images/json?all=0'') None] \<and>
   extends_log w (ListImages e c all w) \<and>
   fst (ListImages e c all w)
     = (case resp_err (do_response c ''GET''
                        (if all then ''/images/json?all=1'' else ''/images/json?all=0'') w) of
          Some err \<Rightarrow> Inl err
        | None \<Rightarrow>
            json_Unmarshal_images e
              (resp_body (do_response c ''GET''
                            (if all then ''/images/json?all=1'' else ''/images/json?all=0'') w))) \<and>
   (isl (fst (ListImages e c all w)) \<longleftrightarrow>
      resp_err (do_response c ''GET''
                  (if all then ''/images/json?all=1'' else ''/images/json?all=0'') w) \<noteq> None \<or>
      isl (json_Unmarshal_images e
             (resp_body (do_response c ''GET''
                           (if all then ''/images/json?all=1'' else ''/images/json?all=0'') w))))"
  by (auto simp: ListImages_unfold split: option.splits)

theorem ListImages_request_and_result_witness:
  "sent w0 (ListImages demo_env ok_client True w0)
     = [DoCall ''GET'' ''/images/json?all=1'' None] \<and>
   fst (ListImages demo_env ok_client True w0) = Inr [] \<and>
   sent w0 (ListImages demo_env notfound_client False w0)
     = [DoCall ''GET'' ''/images/json?all=0'' None] \<and>
   fst (ListImages demo_env notfound_client False w0) = Inl notfound_error"
  using ListImages_request_and_result [of w0 demo_env ok_client True]
    ListImages_request_and_result [of w0 demo_env notfound_client False]
  by (simp add: demo_env_def ok_client_def notfound_client_def w0_def do_response_def
        resp_err_def resp_body_def)

subsection \<open>One request per call\<close>



subsection \<open>Push: the name goes into the path only\<close>

text \<open>
  C8. \<open>PushImage\<close> with a non-empty \<open>Name\<close> sends \<open>POST /images/{name}/push?{qs}\<close>,
  where the query string \<open>qs\<close> is serialised from an option struct whose \<open>Name\<close> has
  been cleared: of the caller's options only \<open>Registry\<close> (and the output stream, which
  carries the tag \<open>qs:"-"\<close>) reaches \<open>queryString\<close>, so the name occurs in the path and
  the query string does not depend on it.
\<close>

theorem PushImage_name_only_in_path:
  assumes "Push_Name opts \<noteq> ''''"
  shows "sent w (PushImage e c opts auth w)
           = [StreamCall ''POST''
                (''/images/'' @ Push_Name opts @ ''/push?'' @
                   queryString e (PushOpts \<lparr>Push_Name = '''',
                                            Push_Registry = Push_Registry opts,
                                            Push_OutputStream = Push_OutputStream opts\<rparr>))
                (Some (auth_buffer e auth)) (Push_OutputStream opts)]"
proof -
  have upd: "opts\<lparr>Push_Name := ''''\<rparr>
          = \<lparr>Push_Name = '''', Push_Registry = Push_Registry opts,
             Push_OutputStream = Push_OutputStream opts\<rparr>"
    by (cases opts) simp
  from assms show ?thesis by (simp add: PushImage_sends upd)
qed

theorem PushImage_name_only_in_path_witness:
  "sent w0 (PushImage demo_env ok_client push_busybox no_auth w0)
     = [StreamCall ''POST'' ''/images/busybox/push?registry=reg.example.com&''
          (Some (Buffer [123, 125, 10])) (Some (Writer 1))]"
proof -
  have "Push_Name push_busybox \<noteq> ''''" by (simp add: push_busybox_def)
  from PushImage_name_only_in_path [OF this, of w0 demo_env ok_client no_auth]
  show ?thesis by (simp add: input_defs demo_defs)
qed

subsection \<open>Build: the name defaults to the remote\<close>

text \<open>
  C9. \<open>BuildImage\<close> with a non-empty \<open>Remote\<close> and an empty \<open>Name\<close> sets \<open>Name\<close> to
  \<open>Remote\<close> before it serialises the options: the request it dispatches is
  \<open>POST /build?{qs}\<close> with \<open>qs\<close> serialised from options whose \<open>Name\<close> (tag \<open>t\<close>) is the
  remote. (With a nil \<open>OutputStream\<close> nothing is dispatched.)
\<close>

theorem BuildImage_name_defaults_to_remote:
  assumes "Build_Remote opts \<noteq> ''''" and "Build_Name opts = ''''"
  shows "(Build_OutputStream opts = None \<longrightarrow>
            BuildImage e c opts w = (Some ErrMissingOutputStream, w)) \<and>
         (Build_OutputStream opts \<noteq> None \<longrightarrow>
            sent w (BuildImage e c opts w)
              = [StreamCall ''POST''
                   (''/build?'' @ queryString e
                      (BuildOpts \<lparr>Build_Name = Build_Remote opts,
                                  Build_Remote = Build_Remote opts,
                                  Build_SuppressOutput = Build_SuppressOutput opts,
                                  Build_OutputStream = Build_OutputStream opts\<rparr>))
                   None (Build_OutputStream opts)])"
proof -
  have upd: "opts\<lparr>Build_Name := Build_Remote opts\<rparr>
          = \<lparr>Build_Name = Build_Remote opts, Build_Remote = Build_Remote opts,
             Build_SuppressOutput = Build_SuppressOutput opts,
             Build_OutputStream = Build_OutputStream opts\<rparr>"
    by (cases opts) simp
  from assms show ?thesis by (simp add: BuildImage_sends BuildImage_no_output upd)
qed

theorem BuildImage_name_defaults_to_remote_witness:
  "sent w0 (BuildImage demo_env ok_client build_repo w0)
     = [StreamCall ''POST'' ''/build?t=github.com/user/repo&remote=github.com/user/repo&''
          None (Some (Writer 1))]"
proof -
  have "Build_Remote build_repo \<noteq> ''''" "Build_Name build_repo = ''''"
    by (simp_all add: build_repo_def)
  from BuildImage_name_defaults_to_remote [OF this, of demo_env ok_client w0]
  show ?thesis by (simp add: input_defs demo_defs)
qed

subsection \<open>Import: the caller's input stream is read from stdin only\<close>

text \<open>
  C10. When \<open>Source\<close> is not \<open>-\<close>, \<open>ImportImage\<close> does not use the caller's
  \<open>InputStream\<close>: the call behaves the same whatever that stream is. With a non-empty
  \<open>Repository\<close>, the request is dispatched with a nil input stream when \<open>Source\<close> is an
  http/https URL, and with a buffer holding the bytes read from the opened file when it is a
  local path.
\<close>

theorem ImportImage_discards_caller_input:
  assumes "Import_Source opts \<noteq> ''-''"
  shows "ImportImage e c (opts\<lparr>Import_InputStream := r\<rparr>) w = ImportImage e c opts w \<and>
         (Import_Repository opts \<noteq> '''' \<and> isUrl e (Import_Source opts) \<longrightarrow>
            (\<exists>p. sent w (ImportImage e c opts w)
               = [StreamCall ''POST'' p None (Import_OutputStream opts)])) \<and>
         (Import_Repository opts \<noteq> '''' \<and> \<not> isUrl e (Import_Source opts) \<longrightarrow>
            (\<forall>f. os_Open e (Import_Source opts) = Inr f \<longrightarrow>
               (\<exists>p. sent w (ImportImage e c opts w)
                  = [StreamCall ''POST'' p (Some (Buffer (fst (ioutil_ReadAll e f))))
                       (Import_OutputStream opts)])))"
proof -
  have "ImportImage e c (opts\<lparr>Import_InputStream := r\<rparr>) w = ImportImage e c opts w"
    using assms by (simp add: ImportImage_def Let_def)
  moreover have "Import_Repository opts \<noteq> '''' \<and> isUrl e (Import_Source opts) \<longrightarrow>
            (\<exists>p. sent w (ImportImage e c opts w)
               = [StreamCall ''POST'' p None (Import_OutputStream opts)])"
    using assms by (simp add: ImportImage_remote)
  moreover have "Import_Repository opts \<noteq> '''' \<and> \<not> isUrl e (Import_Source opts) \<longrightarrow>
            (\<forall>f. os_Open e (Import_Source opts) = Inr f \<longrightarrow>
               (\<exists>p. sent w (ImportImage e c opts w)
                  = [StreamCall ''POST'' p (Some (Buffer (fst (ioutil_ReadAll e f))))
                       (Import_OutputStream opts)]))"
    using assms by (simp add: ImportImage_opened local_path_def)
  ultimately show ?thesis by blast
qed

theorem ImportImage_discards_caller_input_witness:
  "ImportImage demo_env ok_client (import_url\<lparr>Import_InputStream := Some (Reader 9)\<rparr>) w0
     = ImportImage demo_env ok_client import_url w0 \<and>
   (\<exists>p. sent w0 (ImportImage demo_env ok_client import_url w0)
      = [StreamCall ''POST'' p None (Some (Writer 1))]) \<and>
   (\<exists>p. sent w0 (ImportImage demo_env ok_client import_file w0)
      = [StreamCall ''POST'' p (Some (Buffer [1, 2, 3])) (Some (Writer 1))])"
proof -
  have a: "Import_Source import_url \<noteq> ''-''" and b: "Import_Source import_file \<noteq> ''-''"
    by (simp_all add: input_defs)
  show ?thesis
    using ImportImage_discards_caller_input [OF a, of demo_env ok_client "Some (Reader 9)" w0]
      ImportImage_discards_caller_input [OF b, of demo_env ok_client None w0]
    by (simp add: input_defs demo_defs)
qed

end
